theory Spec2Isabelle
  imports Main
begin

section \<open>The extensions part: data model\<close>

text \<open>
  A shallow embedding of \<^verbatim>\<open>vs/workbench/parts/extensions/electron-browser/extensionsPart.ts\<close>.
  The component is an event-driven object: every handler of the source is a function
  from the component's state to its new state, promises in flight are entries of the
  state that a later event resolves or rejects, and a \<^verbatim>\<open>TypeError\<close> raised in the
  middle of a handler is a value carrying the state as the handler left it.
\<close>

subsection \<open>Extensions as the gallery delivers them\<close>

text \<open>
  The fields of \<^verbatim>\<open>IExtension\<close> that this file reads. \<^verbatim>\<open>galleryInformation\<close> is
  optional in the source (\<^verbatim>\<open>extension.galleryInformation ? ... : ...\<close>).
\<close>

record gallery_version =
  iconUrl :: string
  readmeUrl :: string
  downloadHeaders :: "(string \<times> string) list"

record gallery_information =
  publisherDisplayName :: string
  versions :: "gallery_version list"

record extension =
  name :: string
  publisher :: string
  version :: string
  displayName :: string
  description :: string
  galleryInformation :: "gallery_information option"

datatype ExtensionState = Uninstalled | Installed | Outdated

record IExtensionEntry =
  extension :: extension
  state :: ExtensionState

text \<open>
  Modelled from the spec: \<^verbatim>\<open>getExtensionId\<close> of \<^verbatim>\<open>../common/extensionsUtil\<close> is not
  among the sources; the identity of an item is "derived from publisher+name".
\<close>

definition getExtensionId :: "extension \<Rightarrow> string" where
  "getExtensionId e = publisher e @ ''.'' @ name e"

subsection \<open>Pagers and paged models\<close>

text \<open>
  A pager as \<^verbatim>\<open>galleryService.query\<close> resolves to: the first page, the total, the page
  size and the page loader (\<^verbatim>\<open>null\<close> in \<^verbatim>\<open>EmptyModel\<close>). A page loader is the
  function from the page index to the page it resolves to.
\<close>

record 'a pager =
  firstPage :: "'a list"
  totalP :: nat
  pageSize :: nat
  getPage :: "(nat \<Rightarrow> 'a list) option"

text \<open>
  Modelled from the spec: \<^verbatim>\<open>mapPager\<close> of \<^verbatim>\<open>vs/base/common/paging\<close> is not among the
  sources; it maps a function over the first page and over every page that the loader
  delivers, and keeps the total and the page size.
\<close>

definition mapPager :: "'a pager \<Rightarrow> ('a \<Rightarrow> 'b) \<Rightarrow> 'b pager" where
  "mapPager p f =
     \<lparr>firstPage = map f (firstPage p), totalP = totalP p, pageSize = pageSize p,
      getPage = map_option (\<lambda>g i. map f (g i)) (getPage p)\<rparr>"

definition EmptyModel :: "IExtensionEntry pager" where
  "EmptyModel = \<lparr>firstPage = [], totalP = 0, pageSize = 0, getPage = None\<rparr>"

subsection \<open>Row templates and the DOM they hold\<close>

text \<open>
  The parent of a template's container element: the row root it was appended to by
  \<^verbatim>\<open>renderTemplate\<close>, or the overlay.
\<close>

datatype node = RowNode nat | OverlayNode

datatype css = Unset | Px int | Zero

text \<open>
  \<^verbatim>\<open>ITemplateData\<close>, with each DOM handle replaced by what the component reads or writes
  through it: the parent of \<^verbatim>\<open>container\<close>, the class string of \<^verbatim>\<open>element\<close>, the display and
  source of \<^verbatim>\<open>icon\<close>, and the text content of the others.
\<close>

record ITemplateData =
  data_extension :: "extension option"
  data_container_parent :: node
  data_element_classes :: string
  data_icon_display :: string
  data_icon_src :: string
  data_name :: string
  data_version :: string
  data_author :: string
  data_description :: string
  data_body :: string

text \<open>
  Modelled from the spec: \<^verbatim>\<open>addClass\<close> and \<^verbatim>\<open>removeClass\<close> of
  \<^verbatim>\<open>vs/base/browser/dom\<close> are not among the sources, and the spec speaks of class
  markers only. They work on the \<^verbatim>\<open>className\<close> string of the element. The helper they
  share looks, occurrence by occurrence, for the class name as a run of the string that
  starts at the beginning or after a blank and ends at the end or before a blank, and
  gives the bounds to cut out (with one adjacent blank). \<^verbatim>\<open>addClass\<close> appends its
  argument, whole, after a blank when the helper finds nothing; \<^verbatim>\<open>removeClass\<close> cuts
  out what the helper found, so one call removes one occurrence.
\<close>

definition trim :: "string \<Rightarrow> string" where
  "trim s = rev (dropWhile (\<lambda>c. c = CHR '' '') (rev (dropWhile (\<lambda>c. c = CHR '' '') s)))"

fun scanClassName :: "string \<Rightarrow> string \<Rightarrow> nat \<Rightarrow> string \<Rightarrow> (nat \<times> nat) option" where
  "scanClassName classes className idx [] = None"
| "scanClassName classes className idx (c # rest) =
     (if take (length className) (c # rest) = className
      then (let idxEnd = idx + length className
            in if (idx = 0 \<or> classes ! (idx - 1) = CHR '' '')
                  \<and> idxEnd < length classes \<and> classes ! idxEnd = CHR '' ''
               then Some (idx, idxEnd + 1)
               else if 0 < idx \<and> classes ! (idx - 1) = CHR '' '' \<and> idxEnd = length classes
               then Some (idx - 1, idxEnd)
               else if idx = 0 \<and> idxEnd = length classes
               then Some (0, idxEnd)
               else scanClassName classes className (Suc idx) rest)
      else scanClassName classes className (Suc idx) rest)"

definition findClassName :: "string \<Rightarrow> string \<Rightarrow> (nat \<times> nat) option" where
  "findClassName classes className0 =
     (if classes = [] then None
      else let className = trim className0
           in if className = [] then None
              else if length classes < length className then None
              else if classes = className then Some (0, length classes)
              else scanClassName classes className 0 classes)"

definition addClass :: "string \<Rightarrow> string \<Rightarrow> string" where
  "addClass classes className =
     (if classes = [] then className
      else case findClassName classes className of
             None \<Rightarrow> classes @ '' '' @ className
           | Some _ \<Rightarrow> classes)"

definition removeClass :: "string \<Rightarrow> string \<Rightarrow> string" where
  "removeClass classes className =
     (case findClassName classes className of
        None \<Rightarrow> classes
      | Some (lastStart, lastEnd) \<Rightarrow> take lastStart classes @ drop lastEnd classes)"

subsection \<open>Errors\<close>

datatype error = TypeError

text \<open>
  The result of a handler: \<open>Inr\<close> the state it returns with, or \<open>Inl\<close> the exception
  together with the state at the point of the throw (the mutations before it persist).
\<close>

type_synonym 'a res = "(error \<times> 'a) + 'a"

subsection \<open>The component\<close>

text \<open>
  A disposable is what its \<^verbatim>\<open>dispose\<close> does: nothing (\<^verbatim>\<open>empty\<close>), the teardown closure
  of the highlight setter with the listener, the template and the original parent it
  captured, or the removal of the click listener of the root.
\<close>

datatype disposable = Empty | HighlightTeardown nat nat node | RootClickListener

text \<open>A content fetch in flight: the template captured by the chain, the URL and the headers.\<close>

record fetch =
  fetch_data :: nat
  fetch_url :: string
  fetch_headers :: "(string \<times> string) list"

text \<open>
  The stages of the fetch chain of lines 305 to 309, and the rejections that the part
  leaves behind: no call of \<^verbatim>\<open>then\<close> on that chain passes an error callback and
  nothing keeps its promise, so when a stage rejects the promise at the end of the chain
  stays rejected with nobody to handle it.
\<close>

datatype fetch_stage = RequestOptions | Download | Parse

datatype rejection = FetchFailed nat fetch_stage

text \<open>
  The state of the part after \<^verbatim>\<open>createEditor\<close>. Templates are objects shared between the
  renderer's array, the list and the closures of the highlight setter, so they live in a
  store indexed by identity; \<open>templates\<close> is \<^verbatim>\<open>Renderer._templates\<close>.

  \<open>searchDelayer\<close> is the pending task of the delayer with its deadline, \<open>clock\<close> the
  current time in milliseconds. \<open>queryLog\<close> and \<open>fetchLog\<close> record the calls made to the
  gallery service and to the content fetch, \<open>pendingQueries\<close> and \<open>pendingFetches\<close> the
  indices of those whose promise is not yet settled, and \<open>unhandled\<close> the rejections
  that no callback of the part received.
\<close>

record part =
  templates :: "nat list"
  store :: "nat \<Rightarrow> ITemplateData"
  nextTemplate :: nat
  highlight :: "nat option"
  highlightDisposable :: disposable
  toDispose :: "disposable list"
  rootClickAttached :: bool
  rootClasses :: string
  extensionsBoxClasses :: string
  extensionsBoxHeight :: css
  overlayTop :: css
  overlayHeight :: css
  overlayListeners :: "nat list"
  nextListener :: nat
  searchBoxValue :: string
  listModel :: "IExtensionEntry pager"
  searchDelayer :: "(nat \<times> string) option"
  clock :: nat
  queryLog :: "string list"
  pendingQueries :: "nat list"
  fetchLog :: "fetch list"
  pendingFetches :: "nat list"
  unhandled :: "rejection list"

definition newTemplate :: "nat \<Rightarrow> ITemplateData" where
  "newTemplate root =
     \<lparr>data_extension = None, data_container_parent = RowNode root, data_element_classes = [],
      data_icon_display = [], data_icon_src = [], data_name = [], data_version = [],
      data_author = [], data_description = [], data_body = []\<rparr>"

text \<open>The constructor followed by \<^verbatim>\<open>createEditor\<close>.\<close>

definition createEditor :: part where
  "createEditor =
     \<lparr>templates = [], store = newTemplate, nextTemplate = 0,
      highlight = None, highlightDisposable = Empty, toDispose = [RootClickListener],
      rootClickAttached = True, rootClasses = [], extensionsBoxClasses = [],
      extensionsBoxHeight = Unset, overlayTop = Unset, overlayHeight = Unset,
      overlayListeners = [], nextListener = 0, searchBoxValue = [],
      listModel = EmptyModel, searchDelayer = None, clock = 0,
      queryLog = [], pendingQueries = [], fetchLog = [], pendingFetches = [], unhandled = []\<rparr>"

section \<open>Renderer\<close>

definition renderTemplate :: "nat \<Rightarrow> part \<Rightarrow> part" where
  "renderTemplate root s =
     (let result = nextTemplate s
      in s\<lparr>store := (store s)(result := newTemplate root),
           templates := templates s @ [result],
           nextTemplate := Suc result\<rparr>)"

definition renderPlaceholder :: "nat \<Rightarrow> nat \<Rightarrow> part \<Rightarrow> part" where
  "renderPlaceholder index d s =
     s\<lparr>store := (store s)(d := (store s d)
          \<lparr>data_element_classes := addClass (data_element_classes (store s d)) ''loading'',
           data_extension := None,
           data_icon_display := ''none'',
           data_name := [], data_version := [], data_author := [],
           data_description := [], data_body := []\<rparr>)\<rparr>"

text \<open>
  \<^verbatim>\<open>renderElement\<close>: line 117 reads \<^verbatim>\<open>extension.galleryInformation.versions[0]\<close>, which
  throws when there is no gallery information and is \<^verbatim>\<open>undefined\<close> when the sequence is
  empty; in the latter case the throw comes at \<^verbatim>\<open>version.iconUrl\<close>, after the extension
  has been bound and the icon displayed.
\<close>

definition renderElement :: "IExtensionEntry \<Rightarrow> nat \<Rightarrow> nat \<Rightarrow> part \<Rightarrow> part res" where
  "renderElement entry index d s =
     (let ext = extension entry
      in case galleryInformation ext of
           None \<Rightarrow> Inl (TypeError, s)
         | Some g \<Rightarrow>
             (let publisher = publisherDisplayName g;
                  t1 = (store s d)
                    \<lparr>data_extension := Some ext,
                     data_element_classes := removeClass (data_element_classes (store s d)) ''loading'',
                     data_icon_display := ''block''\<rparr>
              in case versions g of
                   [] \<Rightarrow> Inl (TypeError, s\<lparr>store := (store s)(d := t1)\<rparr>)
                 | v # _ \<Rightarrow>
                     Inr (s\<lparr>store := (store s)(d := t1
                       \<lparr>data_icon_src := iconUrl v,
                        data_name := displayName ext,
                        data_version := '' '' @ version ext,
                        data_author := '' by '' @ publisher,
                        data_description := description ext,
                        data_body := []\<rparr>)\<rparr>)))"

definition disposeTemplate :: "nat \<Rightarrow> part \<Rightarrow> part" where
  "disposeTemplate d s = s\<lparr>templates := remove1 d (templates s)\<rparr>"

section \<open>ExtensionsPart\<close>

subsection \<open>Disposables and the transition listener\<close>

text \<open>
  Running a disposable. The teardown closure of the highlight setter (lines 312 to 317)
  disposes the transition listener, re-appends the template's container to the parent
  captured at expansion, sets the overlay's height to 0 and clears the body.
\<close>

fun dispose1 :: "disposable \<Rightarrow> part \<Rightarrow> part" where
  "dispose1 Empty s = s"
| "dispose1 (HighlightTeardown listener d container) s =
     s\<lparr>overlayListeners := removeAll listener (overlayListeners s),
       store := (store s)(d := (store s d)\<lparr>data_container_parent := container, data_body := []\<rparr>),
       overlayHeight := Zero\<rparr>"
| "dispose1 RootClickListener s = s\<lparr>rootClickAttached := False\<rparr>"

text \<open>The \<^verbatim>\<open>transitionend\<close> listener of lines 294 to 299, for the listener it closes over.\<close>

definition transitionend_listener :: "nat \<Rightarrow> part \<Rightarrow> part" where
  "transitionend_listener listener s =
     s\<lparr>overlayListeners := removeAll listener (overlayListeners s),
       rootClasses :=
         addClass (removeClass (removeClass (rootClasses s) ''animated'') ''highlight-in'')
           ''highlighted''\<rparr>"

subsection \<open>The highlight setter\<close>

text \<open>
  Lines 266 to 318. The geometry written to the overlay before the reflow is overwritten
  in the same call, so the state keeps the values of lines 286 and 287.
  Line 285 is one call of \<^verbatim>\<open>addClass\<close> with the two class names in one string.
  The destructuring of line 301 throws when the template has no extension or no gallery
  information, and line 302 throws when the versions sequence is empty; both come after
  the container has moved to the overlay and the listener has been registered, and
  before the disposable is set.
\<close>

definition set_highlight :: "nat option \<Rightarrow> part \<Rightarrow> part res" where
  "set_highlight data s0 =
     (let s = s0\<lparr>highlight := data\<rparr>
      in case data of
           None \<Rightarrow>
             Inr ((dispose1 (highlightDisposable s)
                     (s\<lparr>rootClasses :=
                          removeClass (removeClass (removeClass (rootClasses s) ''highlighted'')
                            ''animated'') ''highlight-in''\<rparr>))
                   \<lparr>highlightDisposable := Empty\<rparr>)
         | Some d \<Rightarrow>
             (let s1 = s\<lparr>rootClasses := addClass (rootClasses s) ''animated highlight-in'',
                        overlayTop := Zero,
                        overlayHeight := extensionsBoxHeight s\<rparr>;
                  container = data_container_parent (store s1 d);
                  s2 = s1\<lparr>store := (store s1)(d := (store s1 d)\<lparr>data_container_parent := OverlayNode\<rparr>)\<rparr>;
                  listener = nextListener s2;
                  s3 = s2\<lparr>overlayListeners := overlayListeners s2 @ [listener],
                         nextListener := Suc listener\<rparr>
              in case data_extension (store s3 d) of
                   None \<Rightarrow> Inl (TypeError, s3)
                 | Some ext \<Rightarrow>
                     (case galleryInformation ext of
                        None \<Rightarrow> Inl (TypeError, s3)
                      | Some g \<Rightarrow>
                          (case versions g of
                             [] \<Rightarrow> Inl (TypeError, s3)
                           | v # _ \<Rightarrow>
                               Inr (s3\<lparr>fetchLog := fetchLog s3 @
                                          [\<lparr>fetch_data = d, fetch_url = readmeUrl v,
                                            fetch_headers = downloadHeaders v\<rparr>],
                                        pendingFetches := pendingFetches s3 @ [length (fetchLog s3)],
                                        highlightDisposable :=
                                          HighlightTeardown listener d container\<rparr>)))))"

text \<open>
  The end of the fetch chain of lines 305 to 309. When the chain resolves, the last
  callback writes the markup into the body of the template the chain captured; when any
  stage rejects, no callback of the chain runs and the rejection stays unhandled.
\<close>

definition fetch_resolved :: "nat \<Rightarrow> string \<Rightarrow> part \<Rightarrow> part" where
  "fetch_resolved k html s =
     (if k \<in> set (pendingFetches s) \<and> k < length (fetchLog s)
      then (let d = fetch_data (fetchLog s ! k)
            in s\<lparr>pendingFetches := removeAll k (pendingFetches s),
                 store := (store s)(d := (store s d)\<lparr>data_body := html\<rparr>)\<rparr>)
      else s)"

definition fetch_rejected :: "nat \<Rightarrow> fetch_stage \<Rightarrow> part \<Rightarrow> part" where
  "fetch_rejected k stage s =
     (if k \<in> set (pendingFetches s) \<and> k < length (fetchLog s)
      then s\<lparr>pendingFetches := removeAll k (pendingFetches s),
             unhandled := unhandled s @ [FetchFailed k stage]\<rparr>
      else s)"

subsection \<open>Selection\<close>

text \<open>
  The first template of the renderer that is bound to an extension with the given id
  (the filter of line 212).
\<close>

definition find_template :: "string \<Rightarrow> part \<Rightarrow> nat option" where
  "find_template ident s =
     (case filter (\<lambda>t. case data_extension (store s t) of
                          None \<Rightarrow> False
                        | Some e \<Rightarrow> getExtensionId e = ident) (templates s) of
        [] \<Rightarrow> None
      | d # _ \<Rightarrow> Some d)"

text \<open>The handler of \<^verbatim>\<open>list.onSelectionChange\<close>, lines 198 to 219.\<close>

definition onSelectionChange :: "IExtensionEntry list \<Rightarrow> part \<Rightarrow> part res" where
  "onSelectionChange elements s0 =
     (let s = (dispose1 (highlightDisposable s0)
                 (s0\<lparr>rootClasses := removeClass (rootClasses s0) ''animated''\<rparr>))
               \<lparr>highlightDisposable := Empty\<rparr>
      in case elements of
           [] \<Rightarrow> Inr s
         | selected # _ \<Rightarrow>
             (case find_template (getExtensionId (extension selected)) s of
                None \<Rightarrow> Inr s
              | Some d \<Rightarrow> set_highlight (Some d) s))"

text \<open>The click listener of the root, lines 179 to 183.\<close>

definition onRootClick :: "bool \<Rightarrow> part \<Rightarrow> part res" where
  "onRootClick target_is_root s =
     (if target_is_root \<and> highlight s \<noteq> None then set_highlight None s else Inr s)"

subsection \<open>Search\<close>

text \<open>
  Modelled from the spec: \<^verbatim>\<open>ThrottledDelayer\<close> of \<^verbatim>\<open>vs/base/common/async\<close> is not among
  the sources. Each call of \<^verbatim>\<open>trigger\<close> cancels the pending invocation of a prior call that
  has not started, and schedules the action to run after the delay; the pending
  invocation is the deadline and the text its action closes over.
\<close>

definition trigger :: "string \<Rightarrow> nat \<Rightarrow> part \<Rightarrow> part" where
  "trigger text delay s = s\<lparr>searchDelayer := Some (clock s + delay, text)\<rparr>"

text \<open>\<^verbatim>\<open>triggerSearch\<close>, lines 246 to 254.\<close>

definition triggerSearch :: "string \<Rightarrow> nat \<Rightarrow> part \<Rightarrow> part res" where
  "triggerSearch text delay s =
     (case set_highlight None s of
        Inl e \<Rightarrow> Inl e
      | Inr s1 \<Rightarrow>
          (let s2 = trigger text delay (s1\<lparr>listModel := EmptyModel\<rparr>)
           in Inr (s2\<lparr>extensionsBoxClasses := addClass (extensionsBoxClasses s2) ''loading''\<rparr>)))"

text \<open>
  \<^verbatim>\<open>doSearch\<close>, lines 256 to 260: the call of the gallery service, and the two callbacks
  that run when its promise resolves. The promise that \<^verbatim>\<open>triggerSearch\<close> holds settles
  with it, which removes the \<^verbatim>\<open>loading\<close> class (line 253).
\<close>

definition doSearch :: "string \<Rightarrow> part \<Rightarrow> part" where
  "doSearch text s =
     s\<lparr>queryLog := queryLog s @ [text],
       pendingQueries := pendingQueries s @ [length (queryLog s)]\<rparr>"

definition toEntry :: "extension \<Rightarrow> IExtensionEntry" where
  "toEntry e = \<lparr>extension = e, state = Installed\<rparr>"

definition query_resolved :: "nat \<Rightarrow> extension pager \<Rightarrow> part \<Rightarrow> part" where
  "query_resolved k result s =
     (if k \<in> set (pendingQueries s)
      then s\<lparr>pendingQueries := removeAll k (pendingQueries s),
             listModel := mapPager result toEntry,
             extensionsBoxClasses := removeClass (extensionsBoxClasses s) ''loading''\<rparr>
      else s)"

definition query_rejected :: "nat \<Rightarrow> part \<Rightarrow> part" where
  "query_rejected k s =
     (if k \<in> set (pendingQueries s)
      then s\<lparr>pendingQueries := removeAll k (pendingQueries s),
             extensionsBoxClasses := removeClass (extensionsBoxClasses s) ''loading''\<rparr>
      else s)"

text \<open>
  Time passing: the clock advances, and the pending invocation of the delayer starts
  when its deadline has been reached.
\<close>

definition advance :: "nat \<Rightarrow> part \<Rightarrow> part" where
  "advance n s =
     (let s1 = s\<lparr>clock := clock s + n\<rparr>
      in case searchDelayer s1 of
           None \<Rightarrow> s1
         | Some (deadline, text) \<Rightarrow>
             (if deadline \<le> clock s1 then doSearch text (s1\<lparr>searchDelayer := None\<rparr>) else s1))"

subsection \<open>The host's calls\<close>

text \<open>\<^verbatim>\<open>setVisible\<close>, lines 222 to 230: the callback that runs once the base class is done.\<close>

definition setVisible :: "bool \<Rightarrow> part \<Rightarrow> part res" where
  "setVisible visible s =
     (if visible
      then (case set_highlight None s of
              Inl e \<Rightarrow> Inl e
            | Inr s1 \<Rightarrow> triggerSearch [] 0 (s1\<lparr>searchBoxValue := []\<rparr>))
      else Inr s)"

text \<open>\<^verbatim>\<open>layout\<close>, lines 232 to 240.\<close>

definition layout :: "int \<Rightarrow> part \<Rightarrow> part" where
  "layout height s =
     (let s1 = s\<lparr>extensionsBoxHeight := Px (height - 72)\<rparr>
      in if highlight s1 \<noteq> None then s1\<lparr>overlayHeight := extensionsBoxHeight s1\<rparr> else s1)"

text \<open>
  \<^verbatim>\<open>dispose\<close>, lines 337 to 341: the field \<^verbatim>\<open>_highlight\<close> is written directly, and the
  disposables of \<^verbatim>\<open>toDispose\<close> are run.
\<close>

definition dispose :: "part \<Rightarrow> part" where
  "dispose s = (fold dispose1 (toDispose s) (s\<lparr>highlight := None\<rparr>))\<lparr>toDispose := []\<rparr>"

subsection \<open>Events\<close>

text \<open>
  Everything that can happen to the part after \<^verbatim>\<open>createEditor\<close>: input in the search
  box, the host's calls, a click, a selection change of the list, the end of a transition
  on the overlay, time passing, the settling of a promise, and the list's calls of the
  renderer.
\<close>

datatype event =
    Input string
  | SetVisible bool
  | Layout int
  | Click bool
  | SelectionChange "IExtensionEntry list"
  | TransitionEnd
  | Advance nat
  | QueryResolved nat "extension pager"
  | QueryRejected nat
  | FetchResolved nat string
  | FetchRejected nat fetch_stage
  | RenderTemplate nat
  | RenderPlaceholder nat nat
  | RenderElement IExtensionEntry nat nat
  | DisposeTemplate nat
  | Dispose

fun handle :: "event \<Rightarrow> part \<Rightarrow> part res" where
  "handle (Input text) s = triggerSearch text 500 (s\<lparr>searchBoxValue := text\<rparr>)"
| "handle (SetVisible visible) s = setVisible visible s"
| "handle (Layout height) s = Inr (layout height s)"
| "handle (Click target_is_root) s =
     (if rootClickAttached s then onRootClick target_is_root s else Inr s)"
| "handle (SelectionChange elements) s = onSelectionChange elements s"
| "handle TransitionEnd s = Inr (fold transitionend_listener (overlayListeners s) s)"
| "handle (Advance n) s = Inr (advance n s)"
| "handle (QueryResolved k result) s = Inr (query_resolved k result s)"
| "handle (QueryRejected k) s = Inr (query_rejected k s)"
| "handle (FetchResolved k html) s = Inr (fetch_resolved k html s)"
| "handle (FetchRejected k stage) s = Inr (fetch_rejected k stage s)"
| "handle (RenderTemplate root) s = Inr (renderTemplate root s)"
| "handle (RenderPlaceholder index d) s = Inr (renderPlaceholder index d s)"
| "handle (RenderElement entry index d) s = renderElement entry index d s"
| "handle (DisposeTemplate d) s = Inr (disposeTemplate d s)"
| "handle Dispose s = Inr (dispose s)"

text \<open>
  An exception that leaves a handler ends that handler only: the part lives on in the
  state the handler had reached.
\<close>

definition after :: "part res \<Rightarrow> part" where
  "after r = (case r of Inl (e, s) \<Rightarrow> s | Inr s \<Rightarrow> s)"

fun run :: "event list \<Rightarrow> part \<Rightarrow> part" where
  "run [] s = s"
| "run (e # es) s = run es (after (handle e s))"

subsection \<open>Sample data\<close>

text \<open>Two gallery extensions, the first with two versions, and a gallery result holding both.\<close>

definition version_a1 :: gallery_version where
  "version_a1 = \<lparr>iconUrl = ''a1.png'', readmeUrl = ''a1.md'', downloadHeaders = [(''X-Key'', ''a'')]\<rparr>"

definition version_a0 :: gallery_version where
  "version_a0 = \<lparr>iconUrl = ''a0.png'', readmeUrl = ''a0.md'', downloadHeaders = []\<rparr>"

definition version_b :: gallery_version where
  "version_b = \<lparr>iconUrl = ''b.png'', readmeUrl = ''b.md'', downloadHeaders = []\<rparr>"

definition extension_a :: extension where
  "extension_a =
     \<lparr>name = ''a'', publisher = ''pub'', version = ''1.1'', displayName = ''A'',
      description = ''first'',
      galleryInformation = Some \<lparr>publisherDisplayName = ''Pub'', versions = [version_a1, version_a0]\<rparr>\<rparr>"

definition extension_b :: extension where
  "extension_b =
     \<lparr>name = ''b'', publisher = ''pub'', version = ''2.0'', displayName = ''B'',
      description = ''second'',
      galleryInformation = Some \<lparr>publisherDisplayName = ''Pub'', versions = [version_b]\<rparr>\<rparr>"

text \<open>An extension whose gallery information carries no version.\<close>

definition extension_c :: extension where
  "extension_c =
     \<lparr>name = ''c'', publisher = ''pub'', version = ''0.1'', displayName = ''C'',
      description = ''third'',
      galleryInformation = Some \<lparr>publisherDisplayName = ''Pub'', versions = []\<rparr>\<rparr>"

definition gallery_result :: "extension pager" where
  "gallery_result =
     \<lparr>firstPage = [extension_a], totalP = 2, pageSize = 1, getPage = Some (\<lambda>i. [extension_b])\<rparr>"

subsection \<open>Intermediate states of the handlers\<close>

text \<open>
  The state of the highlight setter at line 299, for a template \<open>d\<close>: the field is
  written, the overlay is styled, the container has moved and the listener is registered.
\<close>

definition moved :: "nat \<Rightarrow> part \<Rightarrow> part" where
  "moved d s =
     s\<lparr>highlight := Some d,
       rootClasses := addClass (rootClasses s) ''animated highlight-in'',
       overlayTop := Zero,
       overlayHeight := extensionsBoxHeight s,
       store := (store s)(d := (store s d)\<lparr>data_container_parent := OverlayNode\<rparr>),
       overlayListeners := overlayListeners s @ [nextListener s],
       nextListener := Suc (nextListener s)\<rparr>"

text \<open>What lines 301 and 302 read from a template, when they do not throw.\<close>

definition first_version :: "ITemplateData \<Rightarrow> gallery_version option" where
  "first_version t =
     (case data_extension t of
        None \<Rightarrow> None
      | Some ext \<Rightarrow>
          (case galleryInformation ext of
             None \<Rightarrow> None
           | Some g \<Rightarrow> (case versions g of [] \<Rightarrow> None | v # _ \<Rightarrow> Some v)))"

text \<open>The state of the selection handler at line 204, the previous highlight torn down.\<close>

definition torn_down :: "part \<Rightarrow> part" where
  "torn_down s =
     (dispose1 (highlightDisposable s) (s\<lparr>rootClasses := removeClass (rootClasses s) ''animated''\<rparr>))
       \<lparr>highlightDisposable := Empty\<rparr>"


text \<open>The state that setting the highlight to null returns with (lines 270 to 274).\<close>

definition collapsed :: "part \<Rightarrow> part" where
  "collapsed s =
     (dispose1 (highlightDisposable s)
        (s\<lparr>highlight := None,
           rootClasses := removeClass (removeClass (removeClass (rootClasses s) ''highlighted'')
                            ''animated'') ''highlight-in''\<rparr>))
       \<lparr>highlightDisposable := Empty\<rparr>"


text \<open>
  A burst of inputs in the search box: the first text, then each further text after a
  gap in milliseconds.
\<close>

definition typing :: "string \<Rightarrow> (nat \<times> string) list \<Rightarrow> event list" where
  "typing text0 calls =
     Input text0 # concat (map (\<lambda>(gap, text). [Advance gap, Input text]) calls)"

subsection \<open>Reachable states\<close>

text \<open>
  The entries the list hands to the renderer come from the gallery: an extension with
  gallery information has at least one version. The states of the part are those that
  a sequence of events leads to from \<^verbatim>\<open>createEditor\<close>, the renderer being called with
  such entries only.
\<close>

definition wf_entry :: "IExtensionEntry \<Rightarrow> bool" where
  "wf_entry entry =
     (case galleryInformation (extension entry) of
        None \<Rightarrow> True
      | Some g \<Rightarrow> versions g \<noteq> [])"

fun wf_event :: "event \<Rightarrow> bool" where
  "wf_event (RenderElement entry index d) = wf_entry entry"
| "wf_event _ = True"

inductive reachable :: "part \<Rightarrow> bool" where
  start: "reachable createEditor"
| step: "reachable s \<Longrightarrow> wf_event e \<Longrightarrow> reachable (after (handle e s))"

text \<open>
  What holds in every reachable state: a template bound to an extension has a first
  version to read; only the template that the highlight disposable will restore can sit
  in the overlay, and the parent it will be restored to is not the overlay; and
  \<^verbatim>\<open>toDispose\<close> holds nothing but the click listener.
\<close>

definition in_overlay :: "part \<Rightarrow> nat \<Rightarrow> bool" where
  "in_overlay s t = (data_container_parent (store s t) = OverlayNode)"

definition bound_ok :: "part \<Rightarrow> bool" where
  "bound_ok s = (\<forall>t. data_extension (store s t) \<noteq> None \<longrightarrow> first_version (store s t) \<noteq> None)"

definition overlay_ok :: "part \<Rightarrow> bool" where
  "overlay_ok s =
     (case highlightDisposable s of
        HighlightTeardown l d p \<Rightarrow> p \<noteq> OverlayNode \<and> (\<forall>t. t \<noteq> d \<longrightarrow> \<not> in_overlay s t)
      | _ \<Rightarrow> (\<forall>t. \<not> in_overlay s t))"

definition registry_ok :: "part \<Rightarrow> bool" where
  "registry_ok s = (set (toDispose s) \<subseteq> {RootClickListener})"

definition invariant :: "part \<Rightarrow> bool" where
  "invariant s = (bound_ok s \<and> overlay_ok s \<and> registry_ok s)"

text \<open>A part with two rendered rows, the first one selected.\<close>

definition two_rows_first_selected :: part where
  "two_rows_first_selected =
     run [RenderTemplate 0, RenderElement (toEntry extension_a) 0 0,
          RenderTemplate 1, RenderElement (toEntry extension_b) 1 1,
          SelectionChange [toEntry extension_a]] createEditor"

text \<open>A part with one rendered row, selected: the highlight is on template 0.\<close>

definition expanded_a :: part where
  "expanded_a =
     run [RenderTemplate 0, RenderElement (toEntry extension_a) 0 0,
          SelectionChange [toEntry extension_a]] createEditor"

text \<open>
  Two runs in which the highlight leaves an entry while its content fetch is in flight,
  by a click on the root and by the selection of another entry, and the fetch resolves
  afterwards.
\<close>

definition collapse_then_resolve :: part where
  "collapse_then_resolve =
     run [RenderTemplate 0, RenderElement (toEntry extension_a) 0 0,
          SelectionChange [toEntry extension_a], Click True,
          FetchResolved 0 ''<p>readme</p>''] createEditor"

definition reselect_then_resolve :: part where
  "reselect_then_resolve =
     run [RenderTemplate 0, RenderElement (toEntry extension_a) 0 0,
          RenderTemplate 1, RenderElement (toEntry extension_b) 1 1,
          SelectionChange [toEntry extension_a], SelectionChange [toEntry extension_b],
          FetchResolved 0 ''<p>readme</p>''] createEditor"

text \<open>
  Three selections in a row, of the first row, the second and the first again, and then
  a click on the root.
\<close>

definition reselected_then_collapsed :: part where
  "reselected_then_collapsed =
     run [RenderTemplate 0, RenderElement (toEntry extension_a) 0 0,
          RenderTemplate 1, RenderElement (toEntry extension_b) 1 1,
          SelectionChange [toEntry extension_a], SelectionChange [toEntry extension_b],
          SelectionChange [toEntry extension_a], Click True] createEditor"

text \<open>
  The first row is selected, then the second; the fetch of the first row resolves late;
  the first row is selected again, and the fetch of this expansion is the third.
\<close>

definition reexpanded_after_late_result :: part where
  "reexpanded_after_late_result =
     run [RenderTemplate 0, RenderElement (toEntry extension_a) 0 0,
          RenderTemplate 1, RenderElement (toEntry extension_b) 1 1,
          SelectionChange [toEntry extension_a], SelectionChange [toEntry extension_b],
          FetchResolved 0 ''<p>readme</p>'', SelectionChange [toEntry extension_a]] createEditor"

text \<open>Two rows, the first bound to the extension without versions, and that row selected.\<close>

definition versionless_selected :: part where
  "versionless_selected =
     run [RenderTemplate 0, RenderElement (toEntry extension_c) 0 0,
          RenderTemplate 1, RenderElement (toEntry extension_b) 1 1,
          SelectionChange [toEntry extension_c]] createEditor"

lemmas part_defs =
  createEditor_def newTemplate_def renderTemplate_def renderPlaceholder_def renderElement_def
  disposeTemplate_def transitionend_listener_def set_highlight_def fetch_resolved_def
  fetch_rejected_def find_template_def getExtensionId_def onSelectionChange_def
  onRootClick_def trigger_def triggerSearch_def doSearch_def toEntry_def query_resolved_def
  query_rejected_def advance_def setVisible_def layout_def dispose_def after_def
  addClass_def removeClass_def findClassName_def trim_def mapPager_def EmptyModel_def

section \<open>Properties\<close>

subsection \<open>Disposables\<close>

lemma dispose1_rootClasses: "rootClasses (dispose1 x s) = rootClasses s"
  by (cases x) simp_all

lemma dispose1_highlight: "highlight (dispose1 x s) = highlight s"
  by (cases x) simp_all

lemma dispose1_search_fields:
  "clock (dispose1 x s) = clock s"
  "queryLog (dispose1 x s) = queryLog s"
  "pendingQueries (dispose1 x s) = pendingQueries s"
  "searchDelayer (dispose1 x s) = searchDelayer s"
  "listModel (dispose1 x s) = listModel s"
  "searchBoxValue (dispose1 x s) = searchBoxValue s"
  by (cases x; simp)+

subsection \<open>The handlers, case by case\<close>

lemma set_highlight_None:
  "set_highlight None s =
     Inr ((dispose1 (highlightDisposable s)
             (s\<lparr>highlight := None,
                rootClasses := removeClass (removeClass (removeClass (rootClasses s) ''highlighted'')
                            ''animated'') ''highlight-in''\<rparr>))
           \<lparr>highlightDisposable := Empty\<rparr>)"
  by (simp add: set_highlight_def)

lemma set_highlight_Some:
  "set_highlight (Some d) s =
     (case first_version (store s d) of
        None \<Rightarrow> Inl (TypeError, moved d s)
      | Some v \<Rightarrow>
          Inr ((moved d s)
                 \<lparr>fetchLog := fetchLog s @
                     [\<lparr>fetch_data = d, fetch_url = readmeUrl v, fetch_headers = downloadHeaders v\<rparr>],
                  pendingFetches := pendingFetches s @ [length (fetchLog s)],
                  highlightDisposable :=
                    HighlightTeardown (nextListener s) d (data_container_parent (store s d))\<rparr>))"
  by (simp add: set_highlight_def moved_def first_version_def Let_def
      split: option.split list.split)

lemma after_set_highlight_Some_store:
  "store (after (set_highlight (Some d) s)) =
     (store s)(d := (store s d)\<lparr>data_container_parent := OverlayNode\<rparr>)"
  by (simp add: set_highlight_Some after_def moved_def split: option.split)

lemma after_set_highlight_None_store:
  "store (after (set_highlight None s)) = store (dispose1 (highlightDisposable s) s)"
  by (cases "highlightDisposable s") (simp_all add: set_highlight_None after_def)

lemma onSelectionChange_eq:
  "onSelectionChange elements s =
     (case elements of
        [] \<Rightarrow> Inr (torn_down s)
      | selected # _ \<Rightarrow>
          (case find_template (getExtensionId (extension selected)) (torn_down s) of
             None \<Rightarrow> Inr (torn_down s)
           | Some d \<Rightarrow> set_highlight (Some d) (torn_down s)))"
  unfolding onSelectionChange_def torn_down_def Let_def by (rule refl)

lemma torn_down_store:
  "store (torn_down s) = store (dispose1 (highlightDisposable s) s)"
  by (cases "highlightDisposable s") (simp_all add: torn_down_def)

lemma after_onSelectionChange_body:
  "data_body (store (after (onSelectionChange elements s)) x)
     = data_body (store (dispose1 (highlightDisposable s) s) x)"
proof -
  have a: "data_body (store (after (Inr (torn_down s))) x)
             = data_body (store (dispose1 (highlightDisposable s) s) x)"
    by (simp add: after_def torn_down_store)
  have b: "data_body (store (after (set_highlight (Some d) (torn_down s))) x)
             = data_body (store (dispose1 (highlightDisposable s) s) x)" for d
    by (simp add: after_set_highlight_Some_store torn_down_store)
  show ?thesis
    unfolding onSelectionChange_eq using a b
    by (simp split: list.split option.split)
qed

lemma triggerSearch_eq:
  "triggerSearch text delay s =
     Inr ((collapsed s)
            \<lparr>listModel := EmptyModel,
             searchDelayer := Some (clock s + delay, text),
             extensionsBoxClasses := addClass (extensionsBoxClasses s) ''loading''\<rparr>)"
  by (cases "highlightDisposable s")
     (simp_all add: triggerSearch_def set_highlight_None trigger_def collapsed_def)


lemma collapsed_fields:
  "clock (collapsed s) = clock s"
  "extensionsBoxClasses (collapsed s) = extensionsBoxClasses s"
  "queryLog (collapsed s) = queryLog s"
  "pendingQueries (collapsed s) = pendingQueries s"
  "highlight (collapsed s) = None"
  "highlightDisposable (collapsed s) = Empty"
  by (cases "highlightDisposable s"; simp add: collapsed_def)+





lemma set_highlight_None_collapsed: "set_highlight None s = Inr (collapsed s)"
  by (simp add: set_highlight_None collapsed_def)

lemma run_append: "run (xs @ ys) s = run ys (run xs s)"
  by (induction xs arbitrary: s) simp_all

lemma after_Inr: "after (Inr s) = s"
  by (simp add: after_def)

lemma after_triggerSearch:
  "queryLog (after (triggerSearch text delay s)) = queryLog s"
  "clock (after (triggerSearch text delay s)) = clock s"
  "searchDelayer (after (triggerSearch text delay s)) = Some (clock s + delay, text)"
  by (simp_all add: triggerSearch_eq after_def collapsed_fields)

lemma advance_early:
  assumes "searchDelayer s = Some (clock s + 500, text)" and "gap < 500"
  shows "queryLog (advance gap s) = queryLog s"
  using assms by (simp add: advance_def)

lemma advance_due:
  assumes "searchDelayer s = Some (clock s + 500, text)" and "500 \<le> n"
  shows "queryLog (advance n s) = queryLog s @ [text]"
    and "searchDelayer (advance n s) = None"
  using assms by (simp_all add: advance_def doSearch_def)

lemma typing_Cons:
  "typing text0 ((gap, text) # calls) = Input text0 # Advance gap # typing text calls"
  by (simp add: typing_def)

lemma expanded_a_facts:
  "highlight expanded_a = Some 0"
  "data_container_parent (store expanded_a 0) = OverlayNode"
  "data_body (store expanded_a 0) = []"
  "pendingFetches expanded_a = [0]"
  "length (fetchLog expanded_a) = 1"
  "highlightDisposable expanded_a = HighlightTeardown 0 0 (RowNode 0)"
  "overlayListeners expanded_a = [0]"
  "toDispose expanded_a = [RootClickListener]"
  "fetch_data (fetchLog expanded_a ! 0) = 0"
  unfolding expanded_a_def by code_simp+

subsection \<open>The invariant\<close>

lemma invariant_cong:
  assumes "store s' = store s" and "highlightDisposable s' = highlightDisposable s"
    and "toDispose s' = toDispose s"
  shows "invariant s' = invariant s"
  using assms unfolding invariant_def bound_ok_def overlay_ok_def registry_ok_def in_overlay_def
  by (simp split: disposable.split)

lemma invariant_createEditor: "invariant createEditor"
  by (simp add: invariant_def bound_ok_def overlay_ok_def registry_ok_def in_overlay_def
      createEditor_def newTemplate_def)

lemma invariant_released:
  assumes "invariant s" and "store u = store (dispose1 (highlightDisposable s) s)"
    and "highlightDisposable u = Empty" and "toDispose u = toDispose s"
  shows "invariant u" and "\<not> in_overlay u t"
proof -
  have b: "bound_ok u"
    using assms(1,2)
    by (cases "highlightDisposable s")
       (auto simp: invariant_def bound_ok_def first_version_def)
  have o: "\<forall>t. \<not> in_overlay u t"
    using assms(1,2)
    by (cases "highlightDisposable s")
       (auto simp: invariant_def overlay_ok_def in_overlay_def)
  show "invariant u"
    using b o assms(1,3,4) by (simp add: invariant_def overlay_ok_def registry_ok_def)
  show "\<not> in_overlay u t"
    using o by simp
qed

lemma collapsed_store: "store (collapsed s) = store (dispose1 (highlightDisposable s) s)"
  by (cases "highlightDisposable s") (simp_all add: collapsed_def)

lemma dispose1_toDispose: "toDispose (dispose1 x s) = toDispose s"
  by (cases x) simp_all

lemma invariant_collapsed: "invariant s \<Longrightarrow> invariant (collapsed s)"
  by (rule invariant_released(1) [where s = s])
     (simp_all add: collapsed_store collapsed_fields, simp add: collapsed_def dispose1_toDispose)

lemma invariant_torn_down: "invariant s \<Longrightarrow> invariant (torn_down s)"
  by (rule invariant_released(1) [where s = s])
     (simp_all add: torn_down_store, simp_all add: torn_down_def dispose1_toDispose)

lemma torn_down_clear: "invariant s \<Longrightarrow> \<not> in_overlay (torn_down s) t"
  by (rule invariant_released(2) [where s = s])
     (simp_all add: torn_down_store, simp_all add: torn_down_def dispose1_toDispose)

lemma find_template_bound:
  assumes "find_template ident s = Some d"
  shows "data_extension (store s d) \<noteq> None"
proof -
  define P where "P = (\<lambda>t. case data_extension (store s t) of
                          None \<Rightarrow> False
                        | Some e \<Rightarrow> getExtensionId e = ident)"
  from assms obtain rest where "filter P (templates s) = d # rest"
    by (auto simp: find_template_def P_def split: list.splits)
  then have "d \<in> set (filter P (templates s))"
    by simp
  then have "P d"
    by simp
  then show ?thesis
    by (auto simp: P_def split: option.splits)
qed

lemma expansion_ok:
  assumes inv: "invariant s" and idle: "highlightDisposable s = Empty"
    and bound: "data_extension (store s d) \<noteq> None"
  shows "\<exists>s' l. set_highlight (Some d) s = Inr s'
           \<and> invariant s'
           \<and> highlight s' = Some d
           \<and> highlightDisposable s' = HighlightTeardown l d (data_container_parent (store s d))
           \<and> (\<forall>t. in_overlay s' t \<longleftrightarrow> t = d)"
proof -
  from inv bound obtain v where v: "first_version (store s d) = Some v"
    by (auto simp: invariant_def bound_ok_def)
  from inv idle have clear: "\<forall>t. \<not> in_overlay s t"
    by (simp add: invariant_def overlay_ok_def)
  define s' where "s' = (moved d s)
                 \<lparr>fetchLog := fetchLog s @
                     [\<lparr>fetch_data = d, fetch_url = readmeUrl v, fetch_headers = downloadHeaders v\<rparr>],
                  pendingFetches := pendingFetches s @ [length (fetchLog s)],
                  highlightDisposable :=
                    HighlightTeardown (nextListener s) d (data_container_parent (store s d))\<rparr>"
  have eq: "set_highlight (Some d) s = Inr s'"
    by (simp add: set_highlight_Some v s'_def)
  have st: "store s' = (store s)(d := (store s d)\<lparr>data_container_parent := OverlayNode\<rparr>)"
    and hd: "highlightDisposable s' = HighlightTeardown (nextListener s) d (data_container_parent (store s d))"
    and td: "toDispose s' = toDispose s"
    and hl: "highlight s' = Some d"
    by (simp_all add: s'_def moved_def)
  have ov: "\<forall>t. in_overlay s' t \<longleftrightarrow> t = d"
    using clear by (simp add: in_overlay_def st)
  have b: "bound_ok s'"
    using inv by (auto simp: invariant_def bound_ok_def st first_version_def)
  have o: "overlay_ok s'"
    using clear ov by (simp add: overlay_ok_def hd in_overlay_def)
  have r: "registry_ok s'"
    using inv by (simp add: invariant_def registry_ok_def td)
  show ?thesis
    using eq b o r hl hd ov by (auto simp: invariant_def)
qed


lemma invariant_template_update:
  assumes "invariant s"
    and "store s' = (store s)(d := t')"
    and "highlightDisposable s' = highlightDisposable s"
    and "toDispose s' = toDispose s"
    and "data_container_parent t' = data_container_parent (store s d)
         \<or> data_container_parent t' \<noteq> OverlayNode"
    and "data_extension t' \<noteq> None \<longrightarrow> first_version t' \<noteq> None"
  shows "invariant s'"
proof -
  have b: "bound_ok s'"
    using assms(1,2,6) by (auto simp: invariant_def bound_ok_def)
  have o: "overlay_ok s'"
    using assms(1,2,3,5) unfolding invariant_def overlay_ok_def in_overlay_def
    by (auto split: disposable.splits)
  have r: "registry_ok s'"
    using assms(1,4) by (simp add: invariant_def registry_ok_def)
  show ?thesis
    using b o r by (simp add: invariant_def)
qed

lemma invariant_triggerSearch:
  assumes "invariant s"
  shows "invariant (after (triggerSearch text delay s))"
proof -
  have "invariant (after (triggerSearch text delay s)) = invariant (collapsed s)"
    by (rule invariant_cong) (simp_all add: triggerSearch_eq after_Inr)
  then show ?thesis
    using invariant_collapsed [OF assms] by simp
qed

lemma invariant_setVisible:
  assumes "invariant s"
  shows "invariant (after (setVisible visible s))"
proof (cases visible)
  case True
  have "invariant ((collapsed s)\<lparr>searchBoxValue := []\<rparr>) = invariant (collapsed s)"
    by (rule invariant_cong) simp_all
  then have "invariant ((collapsed s)\<lparr>searchBoxValue := []\<rparr>)"
    using invariant_collapsed [OF assms] by simp
  from invariant_triggerSearch [OF this] True show ?thesis
    by (simp add: setVisible_def set_highlight_None_collapsed)
next
  case False
  then show ?thesis
    using assms by (simp add: setVisible_def after_Inr)
qed

lemma invariant_onRootClick:
  assumes "invariant s"
  shows "invariant (after (onRootClick target_is_root s))"
  using assms invariant_collapsed [OF assms]
  by (simp add: onRootClick_def set_highlight_None_collapsed after_Inr)

lemma invariant_onSelectionChange:
  assumes "invariant s"
  shows "invariant (after (onSelectionChange elements s))"
proof (cases elements)
  case Nil
  then show ?thesis
    using invariant_torn_down [OF assms] by (simp add: onSelectionChange_eq after_Inr)
next
  case (Cons selected others)
  show ?thesis
  proof (cases "find_template (getExtensionId (extension selected)) (torn_down s)")
    case None
    then show ?thesis
      using Cons invariant_torn_down [OF assms] by (simp add: onSelectionChange_eq after_Inr)
  next
    case (Some d)
    have idle: "highlightDisposable (torn_down s) = Empty"
      by (simp add: torn_down_def)
    from expansion_ok [OF invariant_torn_down [OF assms] idle find_template_bound [OF Some]]
    show ?thesis
      using Cons Some by (auto simp: onSelectionChange_eq after_Inr)
  qed
qed

lemma fold_transitionend_fields:
  "store (fold transitionend_listener ls s) = store s"
  "highlightDisposable (fold transitionend_listener ls s) = highlightDisposable s"
  "toDispose (fold transitionend_listener ls s) = toDispose s"
  by (induction ls arbitrary: s; simp add: transitionend_listener_def)+

lemma fold_registry_fields:
  assumes "set ds \<subseteq> {RootClickListener}"
  shows "store (fold dispose1 ds s) = store s"
    and "highlightDisposable (fold dispose1 ds s) = highlightDisposable s"
  using assms by (induction ds arbitrary: s; simp)+

lemma invariant_dispose:
  assumes "invariant s"
  shows "invariant (dispose s)"
proof -
  have reg: "set (toDispose s) \<subseteq> {RootClickListener}"
    using assms by (simp add: invariant_def registry_ok_def)
  have st: "store (dispose s) = store s"
    and hd: "highlightDisposable (dispose s) = highlightDisposable s"
    and td: "toDispose (dispose s) = []"
    using reg by (simp_all add: dispose_def fold_registry_fields)
  show ?thesis
    using assms st hd td
    unfolding invariant_def bound_ok_def overlay_ok_def registry_ok_def in_overlay_def
    by (auto split: disposable.splits)
qed

lemma invariant_renderElement:
  assumes "invariant s" and "wf_entry entry"
  shows "invariant (after (renderElement entry index d s))"
proof (cases "galleryInformation (extension entry)")
  case None
  then show ?thesis
    using assms(1) by (simp add: renderElement_def after_def)
next
  case (Some g)
  with assms(2) obtain v rest where v: "versions g = v # rest"
    by (cases "versions g") (auto simp: wf_entry_def)
  show ?thesis
    by (rule invariant_template_update [OF assms(1), where d = d],
        simp add: renderElement_def Let_def Some v after_Inr,
        simp_all add: renderElement_def Let_def Some v after_Inr first_version_def)
qed

lemma invariant_step:
  assumes "invariant s" and "wf_event e"
  shows "invariant (after (handle e s))"
proof (cases e)
  case (Input t)
  have "invariant (s\<lparr>searchBoxValue := t\<rparr>) = invariant s"
    by (rule invariant_cong) simp_all
  with assms(1) have "invariant (s\<lparr>searchBoxValue := t\<rparr>)"
    by simp
  from invariant_triggerSearch [OF this] Input show ?thesis
    by simp
next
  case (SetVisible visible)
  then show ?thesis
    using invariant_setVisible [OF assms(1)] by simp
next
  case (Layout height)
  have "invariant (layout height s) = invariant s"
    by (rule invariant_cong) (simp_all add: layout_def Let_def)
  with assms(1) Layout show ?thesis
    by (simp add: after_Inr)
next
  case (Click target_is_root)
  then show ?thesis
    using assms(1) invariant_onRootClick [OF assms(1)] by (simp add: after_Inr)
next
  case (SelectionChange elements)
  then show ?thesis
    using invariant_onSelectionChange [OF assms(1)] by simp
next
  case TransitionEnd
  have "invariant (fold transitionend_listener (overlayListeners s) s) = invariant s"
    by (rule invariant_cong) (simp_all add: fold_transitionend_fields)
  with assms(1) TransitionEnd show ?thesis
    by (simp add: after_Inr)
next
  case (Advance n)
  have "invariant (advance n s) = invariant s"
    by (rule invariant_cong)
       (simp_all add: advance_def doSearch_def Let_def split: option.split)
  with assms(1) Advance show ?thesis
    by (simp add: after_Inr)
next
  case (QueryResolved k result)
  have "invariant (query_resolved k result s) = invariant s"
    by (rule invariant_cong) (simp_all add: query_resolved_def)
  with assms(1) QueryResolved show ?thesis
    by (simp add: after_Inr)
next
  case (QueryRejected k)
  have "invariant (query_rejected k s) = invariant s"
    by (rule invariant_cong) (simp_all add: query_rejected_def)
  with assms(1) QueryRejected show ?thesis
    by (simp add: after_Inr)
next
  case (FetchResolved k html)
  show ?thesis
  proof (cases "k \<in> set (pendingFetches s) \<and> k < length (fetchLog s)")
    case True
    have keep: "data_extension (store s d) \<noteq> None \<longrightarrow> first_version (store s d) \<noteq> None" for d
      using assms(1) by (simp add: invariant_def bound_ok_def)
    have "invariant (fetch_resolved k html s)"
      using assms(1)
      by (rule invariant_template_update [where d = "fetch_data (fetchLog s ! k)"],
          insert True keep [of "fetch_data (fetchLog s ! k)"],
          simp add: fetch_resolved_def Let_def,
          simp_all add: fetch_resolved_def Let_def first_version_def)
    with FetchResolved show ?thesis
      by (simp add: after_Inr)
  next
    case False
    with assms(1) FetchResolved show ?thesis
      by (auto simp: fetch_resolved_def after_Inr)
  qed
next
  case (FetchRejected k stage)
  have "invariant (fetch_rejected k stage s) = invariant s"
    by (rule invariant_cong) (simp_all add: fetch_rejected_def)
  with assms(1) FetchRejected show ?thesis
    by (simp add: after_Inr)
next
  case (RenderTemplate root)
  have "invariant (renderTemplate root s)"
    using assms(1)
    by (rule invariant_template_update [where d = "nextTemplate s"],
        simp add: renderTemplate_def Let_def,
        simp_all add: renderTemplate_def Let_def newTemplate_def)
  with RenderTemplate show ?thesis
    by (simp add: after_Inr)
next
  case (RenderPlaceholder index d)
  have "invariant (renderPlaceholder index d s)"
    using assms(1)
    by (rule invariant_template_update [where d = d],
        simp add: renderPlaceholder_def,
        simp_all add: renderPlaceholder_def)
  with RenderPlaceholder show ?thesis
    by (simp add: after_Inr)
next
  case (RenderElement entry index d)
  then show ?thesis
    using invariant_renderElement [OF assms(1)] assms(2) by simp
next
  case (DisposeTemplate d)
  have "invariant (disposeTemplate d s) = invariant s"
    by (rule invariant_cong) (simp_all add: disposeTemplate_def)
  with assms(1) DisposeTemplate show ?thesis
    by (simp add: after_Inr)
next
  case Dispose
  then show ?thesis
    using invariant_dispose [OF assms(1)] by (simp add: after_Inr)
qed

lemma reachable_invariant: "reachable s \<Longrightarrow> invariant s"
  by (induction rule: reachable.induct) (simp_all add: invariant_createEditor invariant_step)


lemma reachable_run:
  "reachable s \<Longrightarrow> list_all wf_event es \<Longrightarrow> reachable (run es s)"
  by (induction es arbitrary: s) (simp_all add: reachable.step)

lemma torn_down_extension:
  "data_extension (store (torn_down s) t) = data_extension (store s t)"
  by (cases "highlightDisposable s") (simp_all add: torn_down_store)

lemma torn_down_templates: "templates (torn_down s) = templates s"
  by (cases "highlightDisposable s") (simp_all add: torn_down_def)

lemma find_template_torn_down: "find_template ident (torn_down s) = find_template ident s"
  by (simp add: find_template_def torn_down_extension torn_down_templates)

lemma torn_down_teardown:
  assumes "highlightDisposable s = HighlightTeardown listener x container"
  shows "data_container_parent (store (torn_down s) x) = container"
    and "data_body (store (torn_down s) x) = []"
    and "listener \<notin> set (overlayListeners (torn_down s))"
    and "highlightDisposable (torn_down s) = Empty"
  using assms by (simp_all add: torn_down_def)

subsection \<open>Collapse\<close>

text \<open>
  C4 on the code. After the first row, the second and the first again have been
  selected, a click on the root collapses the highlight: the highlight field is null,
  the disposable is the empty one and the container is back in its row, but the root
  still carries the class \<^verbatim>\<open>highlight-in\<close>, twice; and setting the highlight to null once
  more changes the classes of the root again.
\<close>

theorem collapse_leaves_highlight_class:
  "highlight reselected_then_collapsed = None
   \<and> highlightDisposable reselected_then_collapsed = Empty
   \<and> data_container_parent (store reselected_then_collapsed 0) = RowNode 0
   \<and> rootClasses reselected_then_collapsed = ''highlight-in highlight-in''
   \<and> rootClasses (after (set_highlight None reselected_then_collapsed)) = ''highlight-in''"
  unfolding reselected_then_collapsed_def by code_simp

subsection \<open>Search results\<close>

text \<open>
  C10. When the query of a search resolves, the model of the list is the gallery result
  mapped by the entry constructor of \<^verbatim>\<open>doSearch\<close>, and every entry of it, on the first
  page and on every page its loader delivers, has the state \<open>Installed\<close>.
\<close>

theorem search_entries_installed:
  assumes "k \<in> set (pendingQueries s)"
  shows "listModel (query_resolved k result s) = mapPager result toEntry
       \<and> (\<forall>e \<in> set (firstPage (listModel (query_resolved k result s))). state e = Installed)
       \<and> (\<forall>g i. getPage (listModel (query_resolved k result s)) = Some g
             \<longrightarrow> (\<forall>e \<in> set (g i). state e = Installed))"
  using assms by (auto simp: query_resolved_def mapPager_def toEntry_def)

theorem search_entries_installed_witness:
  "0 \<in> set (pendingQueries (run [Input ''a'', Advance 500] createEditor))
   \<and> map state (firstPage (listModel
        (query_resolved 0 gallery_result (run [Input ''a'', Advance 500] createEditor))))
     = [Installed]
   \<and> (\<exists>g. getPage (listModel
        (query_resolved 0 gallery_result (run [Input ''a'', Advance 500] createEditor))) = Some g
        \<and> map state (g 3) = [Installed])"
proof -
  have p: "0 \<in> set (pendingQueries (run [Input ''a'', Advance 500] createEditor))"
    by (simp add: part_defs)
  from search_entries_installed [OF p, of gallery_result]
  show ?thesis
    using p by (simp add: mapPager_def gallery_result_def toEntry_def)
qed

subsection \<open>Visibility\<close>



subsection \<open>The first version\<close>

text \<open>
  C9. For an entry whose extension has gallery information with a non-empty versions
  sequence, \<^verbatim>\<open>renderElement\<close> binds the extension and takes the icon URL from the first
  version, and the expansion of a template bound to that extension starts exactly one
  content fetch, with the readme URL and the download headers of the first version.
\<close>

theorem first_version_is_used:
  assumes "galleryInformation (extension entry) = Some g"
    and "versions g = v # rest"
  shows "(\<exists>s'. renderElement entry index d s = Inr s'
             \<and> data_extension (store s' d) = Some (extension entry)
             \<and> data_icon_src (store s' d) = iconUrl v)
       \<and> (\<forall>t. data_extension (store t d) = Some (extension entry) \<longrightarrow>
             (\<exists>t'. set_highlight (Some d) t = Inr t'
                \<and> fetchLog t' = fetchLog t @
                     [\<lparr>fetch_data = d, fetch_url = readmeUrl v, fetch_headers = downloadHeaders v\<rparr>]
                \<and> pendingFetches t' = pendingFetches t @ [length (fetchLog t)]))"
  using assms by (simp add: renderElement_def set_highlight_def Let_def)

theorem first_version_is_used_witness:
  "data_icon_src (store (run [RenderTemplate 0, RenderElement (toEntry extension_a) 0 0] createEditor) 0)
     = ''a1.png''
   \<and> fetchLog (run [RenderTemplate 0, RenderElement (toEntry extension_a) 0 0,
                    SelectionChange [toEntry extension_a]] createEditor)
     = [\<lparr>fetch_data = 0, fetch_url = ''a1.md'', fetch_headers = [(''X-Key'', ''a'')]\<rparr>]"
proof -
  have g: "galleryInformation (extension (toEntry extension_a))
             = Some \<lparr>publisherDisplayName = ''Pub'', versions = [version_a1, version_a0]\<rparr>"
    by (simp add: toEntry_def extension_a_def)
  have v: "versions \<lparr>publisherDisplayName = ''Pub'', versions = [version_a1, version_a0]\<rparr>
             = version_a1 # [version_a0]"
    by simp
  from first_version_is_used [OF g v, of 0 0 "renderTemplate 0 createEditor"]
  show ?thesis
    by (simp add: part_defs extension_a_def version_a1_def version_a0_def)
qed

subsection \<open>The content fetch\<close>

text \<open>
  C1, as the claim states it, fails: the highlight leaves the entry (by a click on the
  root in the first run, by the selection of another entry in the second) while the
  fetch is in flight, and when the fetch resolves its markup is in the body of the
  template, which is back in its row.
\<close>

theorem stale_fetch_result_is_injected:
  "highlight collapse_then_resolve = None
   \<and> data_container_parent (store collapse_then_resolve 0) = RowNode 0
   \<and> data_body (store collapse_then_resolve 0) = ''<p>readme</p>''
   \<and> highlight reselect_then_resolve = Some 1
   \<and> data_container_parent (store reselect_then_resolve 0) = RowNode 0
   \<and> data_body (store reselect_then_resolve 0) = ''<p>readme</p>''"
  unfolding collapse_then_resolve_def reselect_then_resolve_def by code_simp

text \<open>
  C1, amended. When a pending content fetch resolves, its markup is written into the body
  of the template its chain captured, and into no other template, without a look at the
  highlight, which it leaves as it is. What a transition away from the highlighted entry
  does is clear the body at the time of the transition: after the highlight is set to
  null, and after any selection change, the body of the template that was highlighted is
  empty.
\<close>

theorem fetch_result_applied_unchecked:
  "(k \<in> set (pendingFetches s) \<and> k < length (fetchLog s) \<longrightarrow>
      data_body (store (fetch_resolved k html s) (fetch_data (fetchLog s ! k))) = html
      \<and> (\<forall>d. d \<noteq> fetch_data (fetchLog s ! k) \<longrightarrow>
            store (fetch_resolved k html s) d = store s d)
      \<and> highlight (fetch_resolved k html s) = highlight s)
   \<and> (highlightDisposable s = HighlightTeardown listener x container \<longrightarrow>
        data_body (store (after (set_highlight None s)) x) = []
        \<and> (\<forall>elements. data_body (store (after (onSelectionChange elements s)) x) = []))"
proof -
  have resolve: "data_body (store (fetch_resolved k html s) (fetch_data (fetchLog s ! k))) = html
      \<and> (\<forall>d. d \<noteq> fetch_data (fetchLog s ! k) \<longrightarrow> store (fetch_resolved k html s) d = store s d)
      \<and> highlight (fetch_resolved k html s) = highlight s"
    if "k \<in> set (pendingFetches s)" and "k < length (fetchLog s)"
    using that by (simp add: fetch_resolved_def Let_def)
  have teardown: "data_body (store (after (set_highlight None s)) x) = []
        \<and> (\<forall>elements. data_body (store (after (onSelectionChange elements s)) x) = [])"
    if "highlightDisposable s = HighlightTeardown listener x container"
    using that by (simp add: after_set_highlight_None_store after_onSelectionChange_body)
  show ?thesis
    using resolve teardown by blast
qed

theorem fetch_result_applied_unchecked_witness:
  "0 \<in> set (pendingFetches expanded_a) \<and> 0 < length (fetchLog expanded_a)
   \<and> highlightDisposable expanded_a = HighlightTeardown 0 0 (RowNode 0)
   \<and> data_body (store (fetch_resolved 0 ''<p>readme</p>'' expanded_a) 0) = ''<p>readme</p>''
   \<and> data_body (store (after (set_highlight None expanded_a)) 0) = []
   \<and> data_body (store (after (onSelectionChange [toEntry extension_b] expanded_a)) 0) = []"
proof -
  from fetch_result_applied_unchecked
    [of 0 expanded_a "''<p>readme</p>''" 0 0 "RowNode 0"]
  show ?thesis
    by (simp add: expanded_a_facts)
qed

text \<open>
  C2, as the claim states it, fails. The first row is expanded again after the result
  of its first fetch arrived late; the fetch of this expansion is pending, and it
  rejects. The overlay stays expanded, but the body holds the markup of the earlier
  fetch, and the rejection has reached no callback of the part.
\<close>

theorem failed_fetch_over_late_result:
  "highlight reexpanded_after_late_result = Some 0
   \<and> pendingFetches reexpanded_after_late_result = [1, 2]
   \<and> fetch_data (fetchLog reexpanded_after_late_result ! 2) = 0
   \<and> highlight (run [FetchRejected 2 Download] reexpanded_after_late_result) = Some 0
   \<and> data_container_parent (store (run [FetchRejected 2 Download] reexpanded_after_late_result) 0)
       = OverlayNode
   \<and> data_body (store (run [FetchRejected 2 Download] reexpanded_after_late_result) 0)
       = ''<p>readme</p>''
   \<and> unhandled (run [FetchRejected 2 Download] reexpanded_after_late_result)
       = [FetchFailed 2 Download]"
  unfolding reexpanded_after_late_result_def by code_simp

text \<open>
  C2, amended. When a pending content fetch rejects, at whatever stage of its chain, the
  handler returns without a throw and nothing is injected: the highlight, every template
  (so the parent of each container and each body), the disposable, the listeners on the
  overlay, the classes of the root and the geometry of the overlay are what they were.
  The overlay stays expanded, and the body stays empty when it was empty. No callback of
  the part receives the rejection: it is left unhandled on the promise of the chain.
\<close>

theorem content_fetch_failure_injects_nothing:
  assumes "k \<in> set (pendingFetches s)" and "k < length (fetchLog s)"
  shows "\<exists>s'. handle (FetchRejected k stage) s = Inr s'
           \<and> highlight s' = highlight s
           \<and> store s' = store s
           \<and> highlightDisposable s' = highlightDisposable s
           \<and> overlayListeners s' = overlayListeners s
           \<and> rootClasses s' = rootClasses s
           \<and> overlayTop s' = overlayTop s
           \<and> overlayHeight s' = overlayHeight s
           \<and> k \<notin> set (pendingFetches s')
           \<and> unhandled s' = unhandled s @ [FetchFailed k stage]"
  using assms by (simp add: fetch_rejected_def)

theorem content_fetch_failure_injects_nothing_witness:
  "0 \<in> set (pendingFetches expanded_a) \<and> 0 < length (fetchLog expanded_a)
   \<and> unhandled expanded_a = []
   \<and> highlight (after (handle (FetchRejected 0 Parse) expanded_a)) = Some 0
   \<and> data_container_parent (store (after (handle (FetchRejected 0 Parse) expanded_a)) 0)
       = OverlayNode
   \<and> data_body (store (after (handle (FetchRejected 0 Parse) expanded_a)) 0) = []
   \<and> unhandled (after (handle (FetchRejected 0 Parse) expanded_a)) = [FetchFailed 0 Parse]"
proof -
  have p: "0 \<in> set (pendingFetches expanded_a)" and l: "0 < length (fetchLog expanded_a)"
    by (simp_all add: expanded_a_facts)
  have u: "unhandled expanded_a = []"
    unfolding expanded_a_def by code_simp
  from content_fetch_failure_injects_nothing [OF p l, of Parse]
  obtain s' where s': "handle (FetchRejected 0 Parse) expanded_a = Inr s'"
    "highlight s' = highlight expanded_a" "store s' = store expanded_a"
    "unhandled s' = unhandled expanded_a @ [FetchFailed 0 Parse]"
    by blast
  show ?thesis
    using p l u s' by (simp add: after_Inr expanded_a_facts)
qed

subsection \<open>Searches\<close>




text \<open>
  C6. In a burst of inputs in the search box, each within less than 500 ms of the one
  before, no query is sent while the burst lasts; once 500 ms or more have passed after
  the last input, exactly one query has been sent, with the text of the last input, and
  nothing is left waiting in the delayer.
\<close>

theorem debounce_coalescing:
  assumes "\<forall>(gap, text) \<in> set calls. gap < 500" and "500 \<le> n"
  shows "queryLog (run (typing text0 calls) s) = queryLog s
       \<and> queryLog (run (typing text0 calls @ [Advance n]) s)
           = queryLog s @ [last (text0 # map snd calls)]
       \<and> searchDelayer (run (typing text0 calls @ [Advance n]) s) = None"
  using assms(1)
proof (induction calls arbitrary: s text0)
  case Nil
  define s0 where "s0 = after (triggerSearch text0 500 (s\<lparr>searchBoxValue := text0\<rparr>))"
  have pending: "searchDelayer s0 = Some (clock s0 + 500, text0)"
    and q0: "queryLog s0 = queryLog s"
    by (simp_all add: s0_def after_triggerSearch)
  have r0: "run (typing text0 []) s = s0"
    and r1: "run (typing text0 [] @ [Advance n]) s = advance n s0"
    by (simp_all add: typing_def s0_def after_Inr)
  show ?case
    unfolding r0 r1 using advance_due [OF pending assms(2)] q0 by simp
next
  case (Cons c calls)
  obtain gap t where c: "c = (gap, t)"
    by (cases c)
  have gap: "gap < 500" and rest: "\<forall>(gap, text) \<in> set calls. gap < 500"
    using Cons.prems c by auto
  define s0 where "s0 = after (triggerSearch text0 500 (s\<lparr>searchBoxValue := text0\<rparr>))"
  have pending: "searchDelayer s0 = Some (clock s0 + 500, text0)"
    and q0: "queryLog s0 = queryLog s"
    by (simp_all add: s0_def after_triggerSearch)
  have q1: "queryLog (advance gap s0) = queryLog s"
    using advance_early [OF pending gap] q0 by simp
  have step: "run (typing text0 (c # calls) @ es) s = run (typing t calls @ es) (advance gap s0)"
    for es
    by (simp add: c typing_Cons s0_def after_Inr)
  from Cons.IH [OF rest, of t "advance gap s0"] step [of "[]"] step [of "[Advance n]"] q1
  show ?case
    by (simp add: c)
qed

theorem debounce_coalescing_witness:
  "queryLog (run (typing ''foo'' [(100, ''foobar'')]) createEditor) = []
   \<and> queryLog (run [Input ''foo'', Advance 100, Input ''foobar'', Advance 500] createEditor)
       = [''foobar'']"
proof -
  have h: "\<forall>(gap, text) \<in> set [(100::nat, ''foobar'')]. gap < 500"
    by simp
  from debounce_coalescing [OF h, of 500 "''foo''" createEditor]
  show ?thesis
    by (simp add: typing_def createEditor_def)
qed

subsection \<open>Disposal\<close>

text \<open>
  C7, as the claim states it, fails. Disposed while template 0 is highlighted, the part
  keeps the transition listener on the overlay, the container in the overlay, the
  teardown unrun and the content fetch pending; disposed while a search waits in the
  delayer, it keeps the search waiting, and the query is sent when the delay elapses.
\<close>

theorem dispose_skips_teardown_and_search:
  "overlayListeners (run [Dispose] expanded_a) = [0]
   \<and> data_container_parent (store (run [Dispose] expanded_a) 0) = OverlayNode
   \<and> highlightDisposable (run [Dispose] expanded_a) = HighlightTeardown 0 0 (RowNode 0)
   \<and> pendingFetches (run [Dispose] expanded_a) = [0]
   \<and> searchDelayer (run [Input ''a'', Dispose] createEditor) = Some (500, ''a'')
   \<and> queryLog (run [Input ''a'', Dispose, Advance 500] createEditor) = [''a'']"
  unfolding expanded_a_def by code_simp

text \<open>
  C7, amended. \<^verbatim>\<open>dispose\<close> sets the highlight field to null and releases the listeners
  registered in \<^verbatim>\<open>toDispose\<close>, which is the click listener of the root: clicks are no
  longer handled and \<^verbatim>\<open>toDispose\<close> is empty. It cancels no asynchronous work: the search
  waiting in the delayer, the queries and the content fetches in flight stay as they are.
\<close>

theorem dispose_releases_registered_listeners:
  assumes "toDispose s = [RootClickListener]"
  shows "highlight (dispose s) = None
       \<and> toDispose (dispose s) = []
       \<and> \<not> rootClickAttached (dispose s)
       \<and> handle (Click target_is_root) (dispose s) = Inr (dispose s)
       \<and> searchDelayer (dispose s) = searchDelayer s
       \<and> pendingQueries (dispose s) = pendingQueries s
       \<and> pendingFetches (dispose s) = pendingFetches s"
  using assms by (simp add: dispose_def)

theorem dispose_releases_registered_listeners_witness:
  "toDispose expanded_a = [RootClickListener]
   \<and> rootClickAttached expanded_a
   \<and> highlight (dispose expanded_a) = None
   \<and> toDispose (dispose expanded_a) = []
   \<and> \<not> rootClickAttached (dispose expanded_a)
   \<and> pendingFetches (dispose expanded_a) = [0]"
proof -
  have a: "rootClickAttached expanded_a"
    unfolding expanded_a_def by code_simp
  from dispose_releases_registered_listeners [OF expanded_a_facts(8), of True]
  show ?thesis
    using a by (simp add: expanded_a_facts)
qed

subsection \<open>One highlight at a time\<close>

text \<open>
  C3, as the claim states it, fails. The first row is bound to an extension without
  versions and is selected: the setter moves its container to the overlay and registers
  its listener, and throws at line 302, before the disposable is set. The row is
  highlighted and there is no teardown to run. When the second row is selected, the
  first container stays in the overlay with its listener, and the second joins it.
\<close>

theorem versionless_highlight_is_not_torn_down:
  "highlight versionless_selected = Some 0
   \<and> data_container_parent (store versionless_selected 0) = OverlayNode
   \<and> highlightDisposable versionless_selected = Empty
   \<and> highlight (run [SelectionChange [toEntry extension_b]] versionless_selected) = Some 1
   \<and> data_container_parent
        (store (run [SelectionChange [toEntry extension_b]] versionless_selected) 0) = OverlayNode
   \<and> data_container_parent
        (store (run [SelectionChange [toEntry extension_b]] versionless_selected) 1) = OverlayNode
   \<and> overlayListeners (run [SelectionChange [toEntry extension_b]] versionless_selected) = [0, 1]"
  unfolding versionless_selected_def by code_simp

text \<open>
  C3, amended. As long as the entries given to the renderer have a non-empty versions
  sequence whenever they have gallery information, at most one template has its container
  in the overlay at any time. And when an entry is selected while a template \<open>x\<close> is
  highlighted, the handler first runs the teardown of \<open>x\<close>: in the state it reaches
  before the expansion starts, the container of \<open>x\<close> is back under the parent it had
  before its expansion (which is not the overlay), its transition listener is disposed,
  its body is empty, the disposable is the empty one and no container is in the overlay.
  The expansion of the selected entry's template \<open>y\<close> starts from that state and returns
  without a throw, with \<open>y\<close> highlighted and its container the only one in the overlay.
\<close>

theorem single_highlight:
  assumes "reachable s"
  shows "(\<forall>a b. data_container_parent (store s a) = OverlayNode
              \<and> data_container_parent (store s b) = OverlayNode \<longrightarrow> a = b)
       \<and> (\<forall>listener x container selected others y.
            highlightDisposable s = HighlightTeardown listener x container
            \<and> find_template (getExtensionId (extension selected)) s = Some y \<longrightarrow>
              data_container_parent (store (torn_down s) x) = container
            \<and> container \<noteq> OverlayNode
            \<and> listener \<notin> set (overlayListeners (torn_down s))
            \<and> data_body (store (torn_down s) x) = []
            \<and> highlightDisposable (torn_down s) = Empty
            \<and> (\<forall>t. data_container_parent (store (torn_down s) t) \<noteq> OverlayNode)
            \<and> (\<exists>s'. onSelectionChange (selected # others) s = Inr s'
                  \<and> set_highlight (Some y) (torn_down s) = Inr s'
                  \<and> highlight s' = Some y
                  \<and> (\<forall>t. data_container_parent (store s' t) = OverlayNode \<longleftrightarrow> t = y)))"
proof -
  have inv: "invariant s"
    using assms by (rule reachable_invariant)
  have one: "a = b"
    if "data_container_parent (store s a) = OverlayNode"
      and "data_container_parent (store s b) = OverlayNode" for a b
  proof (cases "highlightDisposable s")
    case (HighlightTeardown l d p)
    with inv have others: "\<forall>t. t \<noteq> d \<longrightarrow> data_container_parent (store s t) \<noteq> OverlayNode"
      by (simp add: invariant_def overlay_ok_def in_overlay_def)
    from others that(1) have "a = d"
      by blast
    moreover from others that(2) have "b = d"
      by blast
    ultimately show ?thesis
      by simp
  next
    case Empty
    with inv that(1) show ?thesis
      by (simp add: invariant_def overlay_ok_def in_overlay_def)
  next
    case RootClickListener
    with inv that(1) show ?thesis
      by (simp add: invariant_def overlay_ok_def in_overlay_def)
  qed
  have swap: "data_container_parent (store (torn_down s) x) = container
            \<and> container \<noteq> OverlayNode
            \<and> listener \<notin> set (overlayListeners (torn_down s))
            \<and> data_body (store (torn_down s) x) = []
            \<and> highlightDisposable (torn_down s) = Empty
            \<and> (\<forall>t. data_container_parent (store (torn_down s) t) \<noteq> OverlayNode)
            \<and> (\<exists>s'. onSelectionChange (selected # others) s = Inr s'
                  \<and> set_highlight (Some y) (torn_down s) = Inr s'
                  \<and> highlight s' = Some y
                  \<and> (\<forall>t. data_container_parent (store s' t) = OverlayNode \<longleftrightarrow> t = y))"
    if hd: "highlightDisposable s = HighlightTeardown listener x container"
      and found: "find_template (getExtensionId (extension selected)) s = Some y"
    for listener x container selected others y
  proof -
    have c: "container \<noteq> OverlayNode"
      using inv hd by (simp add: invariant_def overlay_ok_def)
    have clear: "\<forall>t. data_container_parent (store (torn_down s) t) \<noteq> OverlayNode"
      using torn_down_clear [OF inv] by (simp add: in_overlay_def)
    have found': "find_template (getExtensionId (extension selected)) (torn_down s) = Some y"
      using found by (simp add: find_template_torn_down)
    from expansion_ok [OF invariant_torn_down [OF inv] torn_down_teardown(4) [OF hd]
        find_template_bound [OF found']]
    obtain s' where s': "set_highlight (Some y) (torn_down s) = Inr s'"
      "highlight s' = Some y" "\<forall>t. in_overlay s' t \<longleftrightarrow> t = y"
      by blast
    have sel: "onSelectionChange (selected # others) s = Inr s'"
      using found' s'(1) by (simp add: onSelectionChange_eq)
    show ?thesis
      using torn_down_teardown(1,2,3,4) [OF hd] c clear sel s'
      by (simp add: in_overlay_def)
  qed
  show ?thesis
  proof (rule conjI)
    show "\<forall>a b. data_container_parent (store s a) = OverlayNode
              \<and> data_container_parent (store s b) = OverlayNode \<longrightarrow> a = b"
      using one by blast
  qed (intro allI impI, elim conjE, rule swap)
qed

theorem single_highlight_witness:
  "highlightDisposable two_rows_first_selected = HighlightTeardown 0 0 (RowNode 0)
   \<and> find_template (getExtensionId (extension (toEntry extension_b))) two_rows_first_selected = Some 1
   \<and> data_container_parent (store (torn_down two_rows_first_selected) 0) = RowNode 0
   \<and> highlight (after (onSelectionChange [toEntry extension_b] two_rows_first_selected)) = Some 1
   \<and> data_container_parent
        (store (after (onSelectionChange [toEntry extension_b] two_rows_first_selected)) 1)
       = OverlayNode
   \<and> data_container_parent
        (store (after (onSelectionChange [toEntry extension_b] two_rows_first_selected)) 0)
       \<noteq> OverlayNode"
proof -
  have wf: "list_all wf_event
      [RenderTemplate 0, RenderElement (toEntry extension_a) 0 0,
       RenderTemplate 1, RenderElement (toEntry extension_b) 1 1,
       SelectionChange [toEntry extension_a]]"
    by (simp add: wf_entry_def toEntry_def extension_a_def extension_b_def)
  have r: "reachable two_rows_first_selected"
    unfolding two_rows_first_selected_def
    by (rule reachable_run [OF reachable.start wf])
  have hd: "highlightDisposable two_rows_first_selected = HighlightTeardown 0 0 (RowNode 0)"
    unfolding two_rows_first_selected_def by code_simp
  have found: "find_template (getExtensionId (extension (toEntry extension_b)))
                 two_rows_first_selected = Some 1"
    unfolding two_rows_first_selected_def by code_simp
  from single_highlight [OF r, THEN conjunct2, rule_format,
      of 0 0 "RowNode 0" "toEntry extension_b" 1 "[]", OF conjI [OF hd found]]
  show ?thesis
    using hd found by (auto simp: after_Inr)
qed

end
